theory Spec2Isabelle
  imports Main "HOL-Library.AList" "HOL-Library.Char_ord" "HOL-Library.List_Lexorder"
    "HOL-Library.Multiset"
begin

section \<open>Compute environments of signac-flow: \<^verbatim>\<open>flow/environment.py\<close>\<close>

text \<open>
  The module declares a family of classes (\<^verbatim>\<open>ComputeEnvironment\<close> and its subclasses) that
  are never instantiated: every method is a class method or a static method, and the class
  object itself is the environment descriptor. A descriptor is modelled as the record of
  what attribute lookup on the class resolves to.
\<close>

subsection \<open>Errors\<close>

text \<open>
  Every exception the modelled code can raise. \<^verbatim>\<open>ConfigKeyError\<close> carries its message,
  \<^verbatim>\<open>KeyError\<close> the missing key, \<^verbatim>\<open>AttributeError\<close> its message.
\<close>

datatype error =
    AttributeError string
  | TypeError
  | KeyError string
  | ConfigKeyError string

definition quote :: "string \<Rightarrow> string" where
  "quote s = [CHR 0x27] @ s @ [CHR 0x27]"

definition no_attribute :: "string \<Rightarrow> string \<Rightarrow> error" where
  \<comment> \<open>What CPython raises when a class has no such attribute.\<close>
  "no_attribute cls attr =
     AttributeError (''type object '' @ quote cls @ '' has no attribute '' @ quote attr)"

subsection \<open>Descriptors\<close>

text \<open>The scheduler drivers of \<^verbatim>\<open>flow.scheduler\<close> that the module binds to.\<close>

datatype scheduler_class = FakeScheduler | TorqueScheduler | SlurmScheduler

text \<open>
  The class attribute \<^verbatim>\<open>scheduler_type\<close>: not defined at all (the base class defines
  \<^verbatim>\<open>scheduler = None\<close>, a different name), defined as \<^verbatim>\<open>None\<close>, or bound to a driver class.
\<close>

datatype scheduler_attr = Undefined | IsNone | Driver scheduler_class

text \<open>The implementations of \<^verbatim>\<open>is_present\<close> and of \<^verbatim>\<open>script\<close> found in the module.\<close>

datatype is_present_method = ComputeEnvironment_is_present | Always_is_present

datatype script_method =
  ComputeEnvironment_script_m | UnknownEnvironment_script_m | TestEnvironment_script_m

record env =
  cls_name :: string
  hostname_pattern :: "string option"
  scheduler_type :: scheduler_attr
  is_present_m :: is_present_method
  script_m :: script_method
  mpi_cmd :: "(string \<Rightarrow> int \<Rightarrow> string) option"

text \<open>
  \<^verbatim>\<open>mpi_cmd\<close> is looked up on the parent class by \<^verbatim>\<open>JobScript.write_cmd\<close>; no class of the
  module defines it, so it is \<open>None\<close> unless a subclass supplies one.
\<close>

definition ComputeEnvironment :: env where
  "ComputeEnvironment =
     \<lparr>cls_name = ''ComputeEnvironment'', hostname_pattern = None, scheduler_type = Undefined,
      is_present_m = ComputeEnvironment_is_present, script_m = ComputeEnvironment_script_m,
      mpi_cmd = None\<rparr>"

definition UnknownEnvironment :: env where
  "UnknownEnvironment =
     ComputeEnvironment\<lparr>cls_name := ''UnknownEnvironment'', scheduler_type := IsNone,
       is_present_m := Always_is_present, script_m := UnknownEnvironment_script_m\<rparr>"

definition TestEnvironment :: env where
  "TestEnvironment =
     ComputeEnvironment\<lparr>cls_name := ''TestEnvironment'', scheduler_type := Driver FakeScheduler,
       is_present_m := Always_is_present, script_m := TestEnvironment_script_m\<rparr>"

definition TorqueEnvironment :: env where
  "TorqueEnvironment =
     ComputeEnvironment\<lparr>cls_name := ''TorqueEnvironment'',
       scheduler_type := Driver TorqueScheduler\<rparr>"

definition MoabEnvironment :: env where
  "MoabEnvironment =
     ComputeEnvironment\<lparr>cls_name := ''MoabEnvironment'',
       scheduler_type := Driver TorqueScheduler\<rparr>"

definition SlurmEnvironment :: env where
  "SlurmEnvironment =
     ComputeEnvironment\<lparr>cls_name := ''SlurmEnvironment'',
       scheduler_type := Driver SlurmScheduler\<rparr>"

definition CPUEnvironment :: env where
  "CPUEnvironment = ComputeEnvironment\<lparr>cls_name := ''CPUEnvironment''\<rparr>"

definition GPUEnvironment :: env where
  "GPUEnvironment = ComputeEnvironment\<lparr>cls_name := ''GPUEnvironment''\<rparr>"

subsection \<open>The registry\<close>

text \<open>
  \<^verbatim>\<open>ComputeEnvironmentType.__init__\<close> runs once per class statement. The first class created
  with the metaclass has no \<^verbatim>\<open>registry\<close> attribute yet and receives an empty
  \<^verbatim>\<open>OrderedDict\<close>; every later class inherits the attribute and is stored under its name.
  Assigning to an existing key of an \<^verbatim>\<open>OrderedDict\<close> keeps the key's position. The first
  class is \<^verbatim>\<open>ComputeEnvironment\<close> itself (the temporary class of \<^verbatim>\<open>with_metaclass\<close> is made by
  \<^verbatim>\<open>type.__new__\<close> and never initialised), so the base class is not registered.
\<close>

type_synonym registry = "(string \<times> env) list"

definition ComputeEnvironmentType_init :: "registry option \<Rightarrow> env \<Rightarrow> registry option" where
  "ComputeEnvironmentType_init r cls =
     (case r of
        None \<Rightarrow> Some []
      | Some reg \<Rightarrow> Some (AList.update (cls_name cls) cls reg))"

definition register :: "env \<Rightarrow> registry \<Rightarrow> registry" where
  \<comment> \<open>The class statement of a subclass, on a registry that exists.\<close>
  "register cls reg = AList.update (cls_name cls) cls reg"

definition module_classes :: "env list" where
  "module_classes =
     [ComputeEnvironment, UnknownEnvironment, TestEnvironment, TorqueEnvironment,
      MoabEnvironment, SlurmEnvironment, CPUEnvironment, GPUEnvironment]"

definition module_registry :: registry where
  \<comment> \<open>\<^verbatim>\<open>ComputeEnvironment.registry\<close> once the module has been imported.\<close>
  "module_registry =
     (case foldl ComputeEnvironmentType_init None module_classes of
        None \<Rightarrow> []
      | Some reg \<Rightarrow> reg)"

subsection \<open>Detection\<close>

text \<open>
  \<^verbatim>\<open>re.match\<close> and \<^verbatim>\<open>socket.gethostname\<close> belong to the Python library: the matcher
  \<open>rm pattern host\<close> (true when \<^verbatim>\<open>re.match(pattern, host)\<close> is not \<^verbatim>\<open>None\<close>) and the host name
  are parameters of the model.
\<close>

definition is_present :: "(string \<Rightarrow> string \<Rightarrow> bool) \<Rightarrow> string \<Rightarrow> env \<Rightarrow> bool" where
  "is_present rm host cls =
     (case is_present_m cls of
        Always_is_present \<Rightarrow> True
      | ComputeEnvironment_is_present \<Rightarrow>
          (case hostname_pattern cls of
             None \<Rightarrow> False
           | Some p \<Rightarrow> rm p host))"

fun first_present :: "(string \<Rightarrow> string \<Rightarrow> bool) \<Rightarrow> string \<Rightarrow> env list \<Rightarrow> env option" where
  \<comment> \<open>The \<^verbatim>\<open>for\<close> loop of \<^verbatim>\<open>get_environment\<close>; \<open>None\<close> when it runs to its \<^verbatim>\<open>else\<close>.\<close>
  "first_present rm host [] = None"
| "first_present rm host (env_type # rest) =
     (if is_present rm host env_type then Some env_type else first_present rm host rest)"

definition get_environment ::
  "(string \<Rightarrow> string \<Rightarrow> bool) \<Rightarrow> string \<Rightarrow> registry \<Rightarrow> bool \<Rightarrow> env" where
  "get_environment rm host reg test =
     (case first_present rm host (rev (map snd reg)) of
        Some env_type \<Rightarrow> env_type
      | None \<Rightarrow> UnknownEnvironment)"

text \<open>
  For concrete runs: \<^verbatim>\<open>re.match\<close> on a pattern without metacharacters succeeds exactly when
  the pattern is a prefix of the host name.
\<close>

definition literal_match :: "string \<Rightarrow> string \<Rightarrow> bool" where
  "literal_match p host = (take (length p) host = p)"

definition matches_no_pattern :: "(string \<Rightarrow> string \<Rightarrow> bool) \<Rightarrow> string \<Rightarrow> registry \<Rightarrow> bool" where
  \<comment> \<open>The host name matches the detection pattern of no registered descriptor.\<close>
  "matches_no_pattern rm host reg =
     list_all (\<lambda>cls. case hostname_pattern cls of None \<Rightarrow> True | Some p \<Rightarrow> \<not> rm p host)
       (map snd reg)"

definition always_present :: "env \<Rightarrow> bool" where
  "always_present cls = (is_present_m cls = Always_is_present)"

definition user_environment :: "string \<Rightarrow> string \<Rightarrow> env" where
  \<comment> \<open>A subclass \<^verbatim>\<open>class n(ComputeEnvironment): hostname_pattern = p\<close> as a user declares it.\<close>
  "user_environment n p = ComputeEnvironment\<lparr>cls_name := n, hostname_pattern := Some p\<rparr>"

subsection \<open>Job scripts\<close>

text \<open>
  A \<^verbatim>\<open>JobScript\<close> is an \<^verbatim>\<open>io.StringIO\<close> with a reference to its parent class. The stream is
  its text and its position: \<^verbatim>\<open>write\<close> overwrites from the position on, pads with NUL when
  the position lies beyond the text, and writes nothing for the empty string.
\<close>

record jobscript =
  parent :: env
  buf :: string
  pos :: nat

definition eol :: string where
  "eol = [CHR 0x0A]"

definition JobScript_init :: "env \<Rightarrow> jobscript" where
  "JobScript_init p = \<lparr>parent = p, buf = [], pos = 0\<rparr>"

definition StringIO_write :: "jobscript \<Rightarrow> string \<Rightarrow> jobscript" where
  "StringIO_write js s =
     (if s = [] then js
      else js\<lparr>buf := take (pos js) (buf js) @ replicate (pos js - length (buf js)) (CHR 0x00)
                   @ s @ drop (pos js + length s) (buf js),
              pos := pos js + length s\<rparr>)"

definition seek :: "jobscript \<Rightarrow> nat \<Rightarrow> jobscript" where
  "seek js p = js\<lparr>pos := p\<rparr>"

definition writeline :: "jobscript \<Rightarrow> string \<Rightarrow> jobscript" where
  "writeline js line = StringIO_write js (line @ eol)"

definition bg :: "string \<Rightarrow> string" where
  \<comment> \<open>The static method of the base class, inherited by every class of the module.\<close>
  "bg cmd = cmd @ '' &''"

definition write_cmd :: "jobscript \<Rightarrow> string \<Rightarrow> int \<Rightarrow> bool \<Rightarrow> error + jobscript" where
  "write_cmd js cmd np bg_flag =
     (case (if np > 1
            then (case mpi_cmd (parent js) of
                    None \<Rightarrow> Inl (no_attribute (cls_name (parent js)) ''mpi_cmd'')
                  | Some wrap \<Rightarrow> Inr (wrap cmd np))
            else Inr cmd) of
        Inl e \<Rightarrow> Inl e
      | Inr cmd1 \<Rightarrow> Inr (writeline js (if bg_flag then bg cmd1 else cmd1)))"

subsection \<open>Formatting of option values\<close>

text \<open>
  The values of keyword options whose \<^verbatim>\<open>str()\<close> is modelled: \<^verbatim>\<open>None\<close>, booleans, integers
  and strings.
\<close>

datatype pyval = PyNone | PyBool bool | PyInt int | PyStr string

fun str_nat :: "nat \<Rightarrow> string" where
  "str_nat n =
     (if n < 10 then [char_of (48 + n)]
      else str_nat (n div 10) @ [char_of (48 + n mod 10)])"

declare str_nat.simps [simp del]

definition str_int :: "int \<Rightarrow> string" where
  "str_int i = (if i < 0 then ''-'' @ str_nat (nat (- i)) else str_nat (nat i))"

fun py_str :: "pyval \<Rightarrow> string" where
  "py_str PyNone = ''None''"
| "py_str (PyBool b) = (if b then ''True'' else ''False'')"
| "py_str (PyInt i) = str_int i"
| "py_str (PyStr s) = s"

subsection \<open>Script construction\<close>

text \<open>
  Keyword arguments arrive as a dictionary in call order: an association list whose keys
  are distinct. \<^verbatim>\<open>sorted(kwargs)\<close> is the sorted list of its keys; strings compare
  lexicographically by character code.

  Each \<^verbatim>\<open>script\<close> is a class method with the signature \<^verbatim>\<open>(cls, **kwargs)\<close>: a keyword named
  \<^verbatim>\<open>cls\<close> collides with the first parameter, and the call raises \<^verbatim>\<open>TypeError\<close> before the
  body runs.
\<close>

type_synonym kwargs = "(string \<times> pyval) list"

definition ComputeEnvironment_script :: "env \<Rightarrow> kwargs \<Rightarrow> error + jobscript" where
  "ComputeEnvironment_script cls kw =
     (if ''cls'' \<in> fst ` set kw then Inl TypeError else Inr (JobScript_init cls))"

definition UnknownEnvironment_script :: "env \<Rightarrow> kwargs \<Rightarrow> error + jobscript" where
  "UnknownEnvironment_script cls kw =
     (if ''cls'' \<in> fst ` set kw then Inl TypeError else ComputeEnvironment_script cls kw)"

definition test_line :: "string \<Rightarrow> pyval \<Rightarrow> string" where
  \<comment> \<open>\<^verbatim>\<open>'#TEST {}={}'.format(key, value)\<close>\<close>
  "test_line key v = ''#TEST '' @ key @ ''='' @ py_str v"

fun write_options :: "kwargs \<Rightarrow> string list \<Rightarrow> jobscript \<Rightarrow> error + jobscript" where
  \<comment> \<open>The loop of \<^verbatim>\<open>TestEnvironment.script\<close> over the sorted keys.\<close>
  "write_options kw [] js = Inr js"
| "write_options kw (key # keys) js =
     (case map_of kw key of
        None \<Rightarrow> Inl (KeyError key)
      | Some v \<Rightarrow> write_options kw keys (writeline js (test_line key v)))"

definition TestEnvironment_script :: "env \<Rightarrow> kwargs \<Rightarrow> error + jobscript" where
  "TestEnvironment_script cls kw =
     (if ''cls'' \<in> fst ` set kw then Inl TypeError
      else (case ComputeEnvironment_script cls kw of
              Inl e \<Rightarrow> Inl e
            | Inr js \<Rightarrow> write_options kw (sort (map fst kw)) js))"

definition script :: "env \<Rightarrow> kwargs \<Rightarrow> error + jobscript" where
  "script cls kw =
     (case script_m cls of
        ComputeEnvironment_script_m \<Rightarrow> ComputeEnvironment_script cls kw
      | UnknownEnvironment_script_m \<Rightarrow> UnknownEnvironment_script cls kw
      | TestEnvironment_script_m \<Rightarrow> TestEnvironment_script cls kw)"

definition script_text :: "error + jobscript \<Rightarrow> (string \<times> nat) option" where
  \<comment> \<open>Text and position of the script a call returned; \<open>None\<close> when the call raised.\<close>
  "script_text r = (case r of Inl e \<Rightarrow> None | Inr js \<Rightarrow> Some (buf js, pos js))"

definition mpirun :: "string \<Rightarrow> int \<Rightarrow> string" where
  \<comment> \<open>A parallel-launch wrapper as a cluster environment defines it.\<close>
  "mpirun cmd np = ''mpirun -np '' @ str_int np @ '' '' @ cmd"

definition MpiEnvironment :: env where
  "MpiEnvironment = ComputeEnvironment\<lparr>cls_name := ''MpiEnvironment'', mpi_cmd := Some mpirun\<rparr>"

subsection \<open>Submission\<close>

text \<open>
  \<^verbatim>\<open>get_scheduler\<close> reads the attribute and calls it inside one \<^verbatim>\<open>try\<close>: a missing attribute
  raises \<^verbatim>\<open>AttributeError\<close>, calling \<^verbatim>\<open>None\<close> raises \<^verbatim>\<open>TypeError\<close>, and both are replaced by
  the module's own \<^verbatim>\<open>AttributeError\<close>. The driver instance is identified with its class.
\<close>

definition call_scheduler_type :: "env \<Rightarrow> error + scheduler_class" where
  \<comment> \<open>\<^verbatim>\<open>getattr(cls, 'scheduler_type')()\<close>\<close>
  "call_scheduler_type cls =
     (case scheduler_type cls of
        Undefined \<Rightarrow> Inl (no_attribute (cls_name cls) ''scheduler_type'')
      | IsNone \<Rightarrow> Inl TypeError
      | Driver d \<Rightarrow> Inr d)"

definition missing_scheduler :: error where
  "missing_scheduler = AttributeError ''You must define a scheduler type for every environment''"

definition get_scheduler :: "env \<Rightarrow> error + scheduler_class" where
  "get_scheduler cls =
     (case call_scheduler_type cls of
        Inl (AttributeError m) \<Rightarrow> Inl missing_scheduler
      | Inl TypeError \<Rightarrow> Inl missing_scheduler
      | Inl e \<Rightarrow> Inl e
      | Inr d \<Rightarrow> Inr d)"

text \<open>The member of \<^verbatim>\<open>manage.JobStatus\<close> that \<^verbatim>\<open>submit\<close> returns.\<close>

datatype job_status = submitted

text \<open>
  The drivers are external: \<open>drv d script args\<close> is what the \<^verbatim>\<open>submit\<close> method of driver \<open>d\<close>
  answers (its truth value) and the script as the driver leaves it. Every call of a driver
  is appended to a log, so that "no driver was invoked" is a statement about the log.
\<close>

type_synonym 'a driver = "scheduler_class \<Rightarrow> jobscript \<Rightarrow> 'a \<Rightarrow> bool \<times> jobscript"

type_synonym 'a call_log = "(scheduler_class \<times> jobscript \<times> 'a) list"

definition submit ::
  "'a driver \<Rightarrow> env \<Rightarrow> jobscript \<Rightarrow> 'a \<Rightarrow> 'a call_log
     \<Rightarrow> (error + job_status option) \<times> jobscript \<times> 'a call_log" where
  "submit drv cls scr args log =
     (let scr0 = seek scr 0 in
      case get_scheduler cls of
        Inl e \<Rightarrow> (Inl e, scr0, log)
      | Inr d \<Rightarrow>
          (case drv d scr0 args of
             (ok, scr1) \<Rightarrow>
               (Inr (if ok then Some submitted else None), scr1, log @ [(d, scr0, args)])))"

definition echo_driver :: "unit driver" where
  \<comment> \<open>A driver that accepts every script and leaves it untouched, for concrete runs.\<close>
  "echo_driver d scr args = (True, scr)"

section \<open>Configuration lookup: \<^verbatim>\<open>flow/util/config.py\<close>\<close>

text \<open>
  The configuration \<^verbatim>\<open>config.load_config()\<close> returns is a tree of sections with scalar
  leaves; it is a parameter of the model. A float is kept as the decimal literal of the
  source (mantissa and exponent of ten).
\<close>

datatype cfg =
    CNone
  | CBool bool
  | CInt int
  | CFloat int int
  | CStr string
  | CSection "(string \<times> cfg) list"

fun getitem :: "cfg \<Rightarrow> string \<Rightarrow> error + cfg" where
  \<comment> \<open>\<^verbatim>\<open>obj[key]\<close>: only a section can be indexed by a string.\<close>
  "getitem (CSection kvs) key =
     (case map_of kvs key of
        None \<Rightarrow> Inl (KeyError key)
      | Some v \<Rightarrow> Inr v)"
| "getitem other key = Inl TypeError"

definition FLOW_CONFIG_DEFAULTS :: "(string \<times> cfg) list" where
  "FLOW_CONFIG_DEFAULTS =
     [(''import_packaged_environments'', CBool True),
      (''status_performance_warn_threshold'', CFloat 2 (- 1)),
      (''show_traceback'', CBool False),
      (''eligible_jobs_max_lines'', CInt 10),
      (''status_parallelization'', CStr ''none'')]"

definition lookup_flow :: "cfg \<Rightarrow> string \<Rightarrow> string option \<Rightarrow> error + cfg" where
  \<comment> \<open>The body of the \<^verbatim>\<open>try\<close> block of \<^verbatim>\<open>require_config_value\<close>.\<close>
  "lookup_flow conf key ns =
     (case getitem conf ''flow'' of
        Inl e \<Rightarrow> Inl e
      | Inr flow \<Rightarrow>
          (case ns of
             None \<Rightarrow> getitem flow key
           | Some n \<Rightarrow>
               (case getitem flow n of
                  Inl e \<Rightarrow> Inl e
                | Inr sub \<Rightarrow> getitem sub key)))"

definition qualified_key :: "string \<Rightarrow> string option \<Rightarrow> string" where
  "qualified_key key ns =
     ''flow.'' @ (case ns of None \<Rightarrow> key | Some n \<Rightarrow> n @ ''.'' @ key)"

text \<open>
  An optional argument is an \<open>option\<close>: for \<^verbatim>\<open>require_config_value\<close> an omitted default is
  the sentinel \<^verbatim>\<open>_GET_CONFIG_VALUE_NONE\<close>, for \<^verbatim>\<open>get_config_value\<close> it is \<^verbatim>\<open>None\<close>.
\<close>

definition require_config_value ::
  "cfg \<Rightarrow> string \<Rightarrow> string option \<Rightarrow> cfg option \<Rightarrow> error + cfg" where
  "require_config_value conf key ns dflt =
     (case lookup_flow conf key ns of
        Inl (KeyError k) \<Rightarrow>
          (case dflt of
             None \<Rightarrow> Inl (ConfigKeyError (qualified_key key ns))
           | Some d \<Rightarrow> Inr d)
      | Inl e \<Rightarrow> Inl e
      | Inr v \<Rightarrow> Inr v)"

definition get_config_value ::
  "cfg \<Rightarrow> string \<Rightarrow> string option \<Rightarrow> cfg option \<Rightarrow> error + cfg" where
  "get_config_value conf key ns dflt =
     require_config_value conf key ns (Some (case dflt of None \<Rightarrow> CNone | Some d \<Rightarrow> d))"

definition empty_store :: cfg where
  "empty_store = CSection []"

section \<open>Properties of detection\<close>

lemmas env_defs = ComputeEnvironment_def UnknownEnvironment_def TestEnvironment_def
  TorqueEnvironment_def MoabEnvironment_def SlurmEnvironment_def CPUEnvironment_def
  GPUEnvironment_def

lemma module_registry_eq:
  "module_registry =
     [(''UnknownEnvironment'', UnknownEnvironment), (''TestEnvironment'', TestEnvironment),
      (''TorqueEnvironment'', TorqueEnvironment), (''MoabEnvironment'', MoabEnvironment),
      (''SlurmEnvironment'', SlurmEnvironment), (''CPUEnvironment'', CPUEnvironment),
      (''GPUEnvironment'', GPUEnvironment)]"
  by (simp add: module_registry_def module_classes_def ComputeEnvironmentType_init_def env_defs)

lemma is_present_Unknown: "is_present rm host UnknownEnvironment"
  by (simp add: is_present_def UnknownEnvironment_def ComputeEnvironment_def)

lemma first_present_Some:
  "first_present rm host es = Some e \<Longrightarrow> is_present rm host e \<and> e \<in> set es"
  by (induction es) (auto split: if_splits)

lemma first_present_find: "first_present rm host es = find (is_present rm host) es"
  by (induction es) auto

lemma first_present_no_match:
  "list_all (\<lambda>cls. case hostname_pattern cls of None \<Rightarrow> True | Some p \<Rightarrow> \<not> rm p host) es \<Longrightarrow>
   first_present rm host es = find always_present es"
  by (induction es)
     (auto simp: is_present_def always_present_def split: is_present_method.splits option.splits)

lemma get_environment_present: "is_present rm host (get_environment rm host reg test)"
  by (auto simp: get_environment_def is_present_Unknown split: option.splits
      dest: first_present_Some)

lemma module_TestEnvironment: "get_environment rm host module_registry test = TestEnvironment"
  by (simp add: get_environment_def module_registry_eq is_present_def env_defs)

lemma update_fresh: "k \<notin> fst ` set al \<Longrightarrow> AList.update k v al = al @ [(k, v)]"
  by (induction al) auto

lemma pattern_match_present:
  "hostname_pattern cls = Some p \<Longrightarrow> rm p host \<Longrightarrow> is_present rm host cls"
  by (simp add: is_present_def split: is_present_method.splits)

text \<open>
  C1, as the code has it. When the host name matches no registered pattern,
  \<^verbatim>\<open>get_environment\<close> returns the last descriptor of the registry whose \<^verbatim>\<open>is_present\<close> is
  the constant \<^verbatim>\<open>True\<close>, and \<^verbatim>\<open>UnknownEnvironment\<close> only when the registry holds none. The
  returned descriptor is present, and so is \<^verbatim>\<open>UnknownEnvironment\<close>. On the registry the module
  builds, the result is \<^verbatim>\<open>TestEnvironment\<close>, which is declared after \<^verbatim>\<open>UnknownEnvironment\<close> and
  is always present as well.
\<close>

theorem get_environment_no_match:
  "matches_no_pattern rm host reg \<Longrightarrow>
     get_environment rm host reg test =
       (case find always_present (rev (map snd reg)) of
          Some cls \<Rightarrow> cls
        | None \<Rightarrow> UnknownEnvironment)
     \<and> is_present rm host (get_environment rm host reg test)
     \<and> is_present rm host UnknownEnvironment
     \<and> get_environment rm host module_registry test = TestEnvironment"
  by (simp add: get_environment_present is_present_Unknown module_TestEnvironment)
     (simp add: get_environment_def matches_no_pattern_def first_present_no_match list_all_iff)

theorem get_environment_no_match_witness:
  "matches_no_pattern literal_match ''x1''
     (register (user_environment ''ClusterEnvironment'' ''cluster'') module_registry)
   \<and> get_environment literal_match ''x1''
       (register (user_environment ''ClusterEnvironment'' ''cluster'') module_registry) False
     = TestEnvironment"
proof -
  have no_match: "matches_no_pattern literal_match ''x1''
      (register (user_environment ''ClusterEnvironment'' ''cluster'') module_registry)"
    by (simp add: matches_no_pattern_def register_def module_registry_eq user_environment_def
        literal_match_def env_defs)
  from get_environment_no_match [OF no_match, of False] no_match show ?thesis
    by (simp add: register_def module_registry_eq user_environment_def always_present_def
        env_defs)
qed

text \<open>
  C1, as the spec states it, fails on the module's own registry: no registered descriptor
  has a pattern, so the host \<^verbatim>\<open>x1\<close> matches none, and the result is \<^verbatim>\<open>TestEnvironment\<close>.
\<close>

theorem get_environment_fallback_counterexample:
  "matches_no_pattern literal_match ''x1'' module_registry
   \<and> get_environment literal_match ''x1'' module_registry False = TestEnvironment
   \<and> get_environment literal_match ''x1'' module_registry False \<noteq> UnknownEnvironment"
proof -
  have "matches_no_pattern literal_match ''x1'' module_registry"
    by (simp add: matches_no_pattern_def module_registry_eq env_defs)
  moreover have "TestEnvironment \<noteq> UnknownEnvironment"
    by (simp add: env_defs)
  ultimately show ?thesis
    by (simp add: module_TestEnvironment)
qed

text \<open>
  Where later declarations do take precedence: when \<open>A\<close> is declared first and \<open>B\<close>
  afterwards under a class name that the registry does not hold yet, and the patterns of
  both match the host, the result is \<open>B\<close>. In general the result is the first present
  descriptor of the registry's values in reverse order.
\<close>

lemma get_environment_precedence:
  assumes A: "hostname_pattern A = Some pa" "rm pa host"
      and B: "hostname_pattern B = Some pb" "rm pb host"
      and fresh: "cls_name B \<notin> fst ` set (register A reg0)"
  shows "get_environment rm host reg test =
           (case find (is_present rm host) (rev (map snd reg)) of
              Some cls \<Rightarrow> cls
            | None \<Rightarrow> UnknownEnvironment)
         \<and> get_environment rm host (register B (register A reg0)) test = B"
proof -
  have "is_present rm host B"
    using B by (rule pattern_match_present)
  moreover have "register B (register A reg0) = register A reg0 @ [(cls_name B, B)]"
    using fresh by (simp add: register_def update_fresh)
  ultimately show ?thesis
    by (simp add: get_environment_def first_present_find)
qed

lemma get_environment_precedence_example:
  "literal_match ''x1'' ''x1'' \<and> literal_match ''x'' ''x1''
   \<and> get_environment literal_match ''x1''
       (register (user_environment ''B'' ''x'')
          (register (user_environment ''A'' ''x1'') module_registry))
       False = user_environment ''B'' ''x''"
  using get_environment_precedence [of "user_environment ''A'' ''x1''" "''x1''" literal_match
      "''x1''" "user_environment ''B'' ''x''" "''x''" module_registry "[]" False]
  by (simp add: user_environment_def literal_match_def register_def module_registry_eq env_defs)

text \<open>
  A class declared under a name that is already registered replaces the old entry where
  it stands; the entries before and after it keep their places.
\<close>

lemma register_in_place:
  "cls_name cls \<notin> fst ` set before \<Longrightarrow>
   register cls (before @ (cls_name cls, old) # after) = before @ (cls_name cls, cls) # after"
  by (induction before) (auto simp: register_def)


text \<open>
  C10. The parameter \<^verbatim>\<open>test\<close> is never read: for every registry and host name the result
  with \<^verbatim>\<open>test=True\<close> is the result with \<^verbatim>\<open>test=False\<close>.
\<close>

theorem get_environment_ignores_test:
  "get_environment rm host reg True = get_environment rm host reg False"
  by (simp add: get_environment_def)

section \<open>Properties of configuration lookup\<close>

text \<open>
  C3, as the code has it. On the empty store \<^verbatim>\<open>get_config_value\<close> without a caller default
  returns \<^verbatim>\<open>None\<close>, for every key and namespace; the table \<^verbatim>\<open>_FLOW_CONFIG_DEFAULTS\<close>, which
  maps \<^verbatim>\<open>status_parallelization\<close> to \<^verbatim>\<open>"none"\<close>, is not consulted.
\<close>

theorem get_config_value_empty_store:
  "get_config_value empty_store key ns None = Inr CNone
   \<and> map_of FLOW_CONFIG_DEFAULTS ''status_parallelization'' = Some (CStr ''none'')"
  by (simp add: get_config_value_def require_config_value_def lookup_flow_def empty_store_def
      FLOW_CONFIG_DEFAULTS_def)

text \<open>C3, as the spec states it, fails: the value returned is \<^verbatim>\<open>None\<close>, not \<^verbatim>\<open>"none"\<close>.\<close>

theorem get_config_value_schema_default_counterexample:
  "get_config_value empty_store ''status_parallelization'' None None = Inr CNone
   \<and> get_config_value empty_store ''status_parallelization'' None None \<noteq> Inr (CStr ''none'')"
  by (simp add: get_config_value_def require_config_value_def lookup_flow_def empty_store_def)



section \<open>Properties of job scripts\<close>

lemma writeline_append:
  "pos js = length (buf js) \<Longrightarrow>
   writeline js line = js\<lparr>buf := buf js @ line @ eol, pos := length (buf js) + length line + 1\<rparr>"
  by (simp add: writeline_def StringIO_write_def eol_def)

lemma write_options_append:
  "pos js = length (buf js) \<Longrightarrow> set keys \<subseteq> fst ` set kw \<Longrightarrow>
   write_options kw keys js =
     Inr (js\<lparr>buf := buf js @ concat (map (\<lambda>key. test_line key (the (map_of kw key)) @ eol) keys),
             pos := length (buf js)
                    + length (concat (map (\<lambda>key. test_line key (the (map_of kw key)) @ eol) keys))\<rparr>)"
proof (induction keys arbitrary: js)
  case Nil
  then show ?case by simp
next
  case (Cons key keys)
  from Cons.prems obtain v where v: "map_of kw key = Some v"
    by (cases "map_of kw key") (auto simp: map_of_eq_None_iff)
  have at_end: "pos (writeline js (test_line key v)) = length (buf (writeline js (test_line key v)))"
    using Cons.prems(1) by (simp add: writeline_append eol_def)
  show ?case
    using Cons.prems v Cons.IH [OF at_end]
    by (simp add: writeline_append eol_def)
qed

lemma distinct_keys_sort_key:
  "distinct (map fst kw) \<Longrightarrow> distinct (map fst (sort_key fst kw))"
proof -
  assume d: "distinct (map fst kw)"
  have "mset (map fst (sort_key fst kw)) = mset (map fst kw)"
    by simp
  then show ?thesis
    using d mset_eq_imp_distinct_iff by blast
qed

lemma sort_keys_eq:
  assumes "distinct (map fst kw)"
  shows "sort (map fst kw) = map fst (sort_key fst kw)"
proof (rule sorted_distinct_set_unique)
  show "sorted (sort (map fst kw))" by simp
  show "distinct (sort (map fst kw))" using assms by simp
  show "sorted (map fst (sort_key fst kw))" by (rule sorted_sort_key)
  show "distinct (map fst (sort_key fst kw))" using assms by (rule distinct_keys_sort_key)
  show "set (sort (map fst kw)) = set (map fst (sort_key fst kw))" by simp
qed

lemma sort_key_fst_lookup:
  assumes "distinct (map fst kw)"
  shows "map (\<lambda>key. f key (the (map_of kw key))) (sort (map fst kw))
           = map (\<lambda>(key, v). f key v) (sort_key fst kw)"
proof -
  have "\<And>key v. (key, v) \<in> set (sort_key fst kw) \<Longrightarrow> the (map_of kw key) = v"
    using assms by (simp add: map_of_is_SomeI)
  then show ?thesis
    by (auto simp: sort_keys_eq [OF assms] comp_def)
qed

lemma sort_key_reorder:
  assumes "distinct (map fst kw)" and "mset kw' = mset kw"
  shows "sort_key fst kw' = sort_key fst kw"
proof (rule map_sorted_distinct_set_unique [where f = fst])
  have s: "set kw' = set kw"
    using assms(2) by (rule mset_eq_setD)
  have d': "distinct (map fst kw')"
  proof -
    have "mset (map fst kw') = mset (map fst kw)" using assms(2) by simp
    then show ?thesis using assms(1) mset_eq_imp_distinct_iff by blast
  qed
  show "inj_on fst (set (sort_key fst kw') \<union> set (sort_key fst kw))"
    using assms(1) s by (simp add: distinct_map)
  show "sorted (map fst (sort_key fst kw'))" by (rule sorted_sort_key)
  show "sorted (map fst (sort_key fst kw))" by (rule sorted_sort_key)
  show "distinct (map fst (sort_key fst kw'))" using d' by (rule distinct_keys_sort_key)
  show "distinct (map fst (sort_key fst kw))" using assms(1) by (rule distinct_keys_sort_key)
  show "set (sort_key fst kw') = set (sort_key fst kw)" using s by simp
qed

lemma script_cls_keyword: "''cls'' \<in> fst ` set kw \<Longrightarrow> script cls kw = Inl TypeError"
  by (simp add: script_def ComputeEnvironment_script_def UnknownEnvironment_script_def
      TestEnvironment_script_def split: script_method.splits)

lemma TestEnvironment_script_text:
  assumes "distinct (map fst kw)" and no_cls: "''cls'' \<notin> fst ` set kw"
  shows "script TestEnvironment kw =
           Inr \<lparr>parent = TestEnvironment,
                buf = concat (map (\<lambda>(key, v). ''#TEST '' @ key @ ''='' @ py_str v @ eol)
                                (sort_key fst kw)),
                pos = length (concat (map (\<lambda>(key, v). ''#TEST '' @ key @ ''='' @ py_str v @ eol)
                                (sort_key fst kw)))\<rparr>"
proof -
  have m: "script_m TestEnvironment = TestEnvironment_script_m"
    by (simp add: TestEnvironment_def)
  have "map (\<lambda>key. test_line key (the (map_of kw key)) @ eol) (sort (map fst kw))
          = map (\<lambda>(key, v). test_line key v @ eol) (sort_key fst kw)"
    using assms(1) by (rule sort_key_fst_lookup)
  moreover have "(\<lambda>(key, v). test_line key v @ eol)
      = (\<lambda>(key, v). ''#TEST '' @ key @ ''='' @ py_str v @ eol)"
    by (simp add: test_line_def fun_eq_iff)
  ultimately show ?thesis
    using no_cls
    by (simp add: script_def m TestEnvironment_script_def ComputeEnvironment_script_def
        write_options_append JobScript_init_def)
qed

text \<open>
  C4, as the code has it. \<^verbatim>\<open>writeline\<close> always completes. \<^verbatim>\<open>write_cmd\<close> completes exactly
  when \<^verbatim>\<open>np <= 1\<close> or the parent descriptor defines \<^verbatim>\<open>mpi_cmd\<close>; with \<^verbatim>\<open>np > 1\<close> on a parent
  without \<^verbatim>\<open>mpi_cmd\<close> it raises \<^verbatim>\<open>AttributeError\<close>. No class declared in the module defines
  \<^verbatim>\<open>mpi_cmd\<close>.
\<close>

theorem write_cmd_completes_iff:
  "((\<exists>js'. write_cmd js cmd np bg_flag = Inr js') \<longleftrightarrow> (np \<le> 1 \<or> mpi_cmd (parent js) \<noteq> None))
   \<and> (1 < np \<and> mpi_cmd (parent js) = None \<longrightarrow>
        write_cmd js cmd np bg_flag = Inl (no_attribute (cls_name (parent js)) ''mpi_cmd''))
   \<and> list_all (\<lambda>cls. mpi_cmd cls = None) module_classes"
  by (auto simp: write_cmd_def module_classes_def env_defs split: option.splits)

theorem write_cmd_completes_iff_witness:
  "write_cmd (JobScript_init MpiEnvironment) ''run'' 4 False
     = Inr (writeline (JobScript_init MpiEnvironment) (mpirun ''run'' 4))
   \<and> write_cmd (JobScript_init GPUEnvironment) ''run'' 4 False
     = Inl (no_attribute ''GPUEnvironment'' ''mpi_cmd'')"
  using write_cmd_completes_iff [of "JobScript_init MpiEnvironment" "''run''" 4 False]
    write_cmd_completes_iff [of "JobScript_init GPUEnvironment" "''run''" 4 False]
  by (simp add: write_cmd_def JobScript_init_def MpiEnvironment_def env_defs)

text \<open>
  C4, as the spec states it, fails: on a script of \<^verbatim>\<open>UnknownEnvironment\<close> the call
  \<^verbatim>\<open>write_cmd("run", np=2)\<close> raises \<^verbatim>\<open>AttributeError\<close>.
\<close>

theorem write_cmd_raises_counterexample:
  "write_cmd (JobScript_init UnknownEnvironment) ''run'' 2 False
     = Inl (no_attribute ''UnknownEnvironment'' ''mpi_cmd'')"
  by (simp add: write_cmd_def JobScript_init_def env_defs)

text \<open>
  C5. With \<^verbatim>\<open>np > 1\<close>, \<^verbatim>\<open>bg=True\<close> and a parent whose \<^verbatim>\<open>mpi_cmd\<close> is \<open>wrap\<close>, the text
  \<^verbatim>\<open>write_cmd\<close> hands to the stream is the background wrapping of \<open>wrap cmd np\<close> followed by
  one line terminator, and the background wrapping appends \<^verbatim>\<open>" &"\<close>. On a script whose
  position is at its end (every script that was only written to), that text is appended.
\<close>

theorem write_cmd_wrapping_order:
  assumes "1 < np" and "mpi_cmd (parent js) = Some wrap"
  shows "write_cmd js cmd np True = Inr (StringIO_write js (bg (wrap cmd np) @ eol))
         \<and> bg (wrap cmd np) = wrap cmd np @ '' &''
         \<and> (pos js = length (buf js) \<longrightarrow>
              script_text (write_cmd js cmd np True) =
                Some (buf js @ wrap cmd np @ '' &'' @ eol,
                      length (buf js) + length (wrap cmd np) + 3))"
  using assms by (simp add: write_cmd_def writeline_append script_text_def bg_def)
    (simp add: writeline_def)

theorem write_cmd_wrapping_order_witness:
  "script_text (write_cmd (JobScript_init MpiEnvironment) ''run'' 4 True)
     = Some (''mpirun -np 4 run &'' @ eol, 19)"
proof -
  have m: "mpirun ''run'' 4 = ''mpirun -np 4 run''"
    by code_simp
  have lt: "1 < (4::int)"
    by simp
  have wrap: "mpi_cmd (parent (JobScript_init MpiEnvironment)) = Some mpirun"
    by (simp add: JobScript_init_def MpiEnvironment_def)
  have fresh: "pos (JobScript_init MpiEnvironment) = length (buf (JobScript_init MpiEnvironment))"
    by (simp add: JobScript_init_def)
  from write_cmd_wrapping_order [OF lt wrap, of "''run''"] fresh
  have "script_text (write_cmd (JobScript_init MpiEnvironment) ''run'' 4 True) =
      Some (buf (JobScript_init MpiEnvironment) @ mpirun ''run'' 4 @ '' &'' @ eol,
            length (buf (JobScript_init MpiEnvironment)) + length (mpirun ''run'' 4) + 3)"
    by blast
  then show ?thesis
    by (simp add: m JobScript_init_def)
qed

text \<open>
  C8. For keyword options (a Python dictionary: distinct keys, none of them \<^verbatim>\<open>cls\<close>, the name
  of the method's own first parameter), \<^verbatim>\<open>TestEnvironment.script\<close> returns a script whose
  text is one line \<^verbatim>\<open>#TEST key=value\<close> per option, each terminated, the options sorted by key:
  the sorted list has ascending keys and is a permutation of the options. Passing the same
  options in another order gives the same script.
\<close>

theorem TestEnvironment_script_sorted:
  assumes "distinct (map fst kw)" and "''cls'' \<notin> fst ` set kw"
  shows "script_text (script TestEnvironment kw) =
           Some (concat (map (\<lambda>(key, v). ''#TEST '' @ key @ ''='' @ py_str v @ eol)
                          (sort_key fst kw)),
                 length (concat (map (\<lambda>(key, v). ''#TEST '' @ key @ ''='' @ py_str v @ eol)
                          (sort_key fst kw))))
         \<and> sorted (map fst (sort_key fst kw))
         \<and> mset (sort_key fst kw) = mset kw
         \<and> (mset kw' = mset kw \<longrightarrow> script TestEnvironment kw' = script TestEnvironment kw)"
proof -
  have "script TestEnvironment kw' = script TestEnvironment kw" if p: "mset kw' = mset kw"
  proof -
    have "mset (map fst kw') = mset (map fst kw)" using p by simp
    then have d': "distinct (map fst kw')"
      using assms(1) mset_eq_imp_distinct_iff by blast
    have "set kw' = set kw"
      using p by (rule mset_eq_setD)
    then have c': "''cls'' \<notin> fst ` set kw'"
      using assms(2) by simp
    show ?thesis
      by (simp add: TestEnvironment_script_text [OF assms] TestEnvironment_script_text [OF d' c']
          sort_key_reorder [OF assms(1) p])
  qed
  then show ?thesis
    by (simp add: TestEnvironment_script_text [OF assms] script_text_def sorted_sort_key)
qed

theorem TestEnvironment_script_sorted_witness:
  "script_text (script TestEnvironment [(''beta'', PyInt 2), (''alpha'', PyInt 1)])
     = Some (''#TEST alpha=1'' @ eol @ ''#TEST beta=2'' @ eol, 27)
   \<and> script TestEnvironment [(''alpha'', PyInt 1), (''beta'', PyInt 2)]
     = script TestEnvironment [(''beta'', PyInt 2), (''alpha'', PyInt 1)]"
proof -
  have d: "distinct (map fst [(''beta'', PyInt 2), (''alpha'', PyInt 1)])"
    by simp
  have p: "mset [(''alpha'', PyInt 1), (''beta'', PyInt 2)]
             = mset [(''beta'', PyInt 2), (''alpha'', PyInt 1)]"
    by (simp add: add_mset_commute)
  have s: "sort_key fst [(''beta'', PyInt 2), (''alpha'', PyInt 1)]
             = [(''alpha'', PyInt 1), (''beta'', PyInt 2)]"
    by code_simp
  have one: "str_int 1 = ''1''" and two: "str_int 2 = ''2''"
    by code_simp+
  have c: "''cls'' \<notin> fst ` set [(''beta'', PyInt 2), (''alpha'', PyInt 1)]"
    by simp
  from TestEnvironment_script_sorted [OF d c, of "[(''alpha'', PyInt 1), (''beta'', PyInt 2)]"] p
  show ?thesis
    by (simp add: s one two eol_def)
qed

section \<open>Properties of submission\<close>

text \<open>
  C6. On a descriptor whose \<^verbatim>\<open>scheduler_type\<close> is not defined or is \<^verbatim>\<open>None\<close>, as for
  \<^verbatim>\<open>UnknownEnvironment\<close>, \<^verbatim>\<open>submit\<close> raises the module's missing-scheduler
  \<^verbatim>\<open>AttributeError\<close>; the log of driver calls is unchanged, and the script has only been
  rewound.
\<close>

theorem submit_without_scheduler:
  assumes "scheduler_type cls = Undefined \<or> scheduler_type cls = IsNone"
  shows "submit drv cls scr args log = (Inl missing_scheduler, seek scr 0, log)"
  using assms
  by (auto simp: submit_def get_scheduler_def call_scheduler_type_def no_attribute_def)

theorem submit_without_scheduler_witness:
  "scheduler_type UnknownEnvironment = IsNone
   \<and> submit echo_driver UnknownEnvironment (JobScript_init UnknownEnvironment) () []
     = (Inl (AttributeError ''You must define a scheduler type for every environment''),
        JobScript_init UnknownEnvironment, [])"
  using submit_without_scheduler
    [of UnknownEnvironment echo_driver "JobScript_init UnknownEnvironment" "()" "[]"]
  by (simp add: env_defs missing_scheduler_def seek_def JobScript_init_def)

text \<open>
  C9. \<^verbatim>\<open>MoabEnvironment\<close> is \<^verbatim>\<open>TorqueEnvironment\<close> under another name: the two descriptors
  differ in the class name only, both resolve to the \<^verbatim>\<open>TorqueScheduler\<close> driver, and detection,
  \<^verbatim>\<open>script\<close>, \<^verbatim>\<open>submit\<close> and \<^verbatim>\<open>write_cmd\<close> give equal results on both: the same script text
  and position, or an exception in the same cases (the message of the \<^verbatim>\<open>AttributeError\<close> that
  \<^verbatim>\<open>write_cmd\<close> raises for \<^verbatim>\<open>np > 1\<close> carries the class name).
\<close>

theorem MoabEnvironment_alias:
  "MoabEnvironment = TorqueEnvironment\<lparr>cls_name := ''MoabEnvironment''\<rparr>
   \<and> get_scheduler MoabEnvironment = Inr TorqueScheduler
   \<and> get_scheduler TorqueEnvironment = Inr TorqueScheduler
   \<and> is_present rm host MoabEnvironment = is_present rm host TorqueEnvironment
   \<and> script_text (script MoabEnvironment kw) = script_text (script TorqueEnvironment kw)
   \<and> submit drv MoabEnvironment scr args log = submit drv TorqueEnvironment scr args log
   \<and> script_text (write_cmd (js\<lparr>parent := MoabEnvironment\<rparr>) cmd np bg_flag)
       = script_text (write_cmd (js\<lparr>parent := TorqueEnvironment\<rparr>) cmd np bg_flag)"
  by (simp add: env_defs get_scheduler_def call_scheduler_type_def is_present_def script_def
      ComputeEnvironment_script_def JobScript_init_def script_text_def submit_def write_cmd_def
      writeline_def StringIO_write_def)

end
